theory Spec2Isabelle
  imports Complex_Main "HOL-Library.Multiset"
begin

section \<open>Values exchanged with the client\<close>

text \<open>
  The service of \<^verbatim>\<open>src/app.py\<close> reads \<^verbatim>\<open>request.json\<close> and answers with
  \<^verbatim>\<open>jsonify(...)\<close>. A parsed JSON document is a value of \<open>json\<close>; a Python
  \<^verbatim>\<open>dict\<close> is \<open>JObj\<close> over the list of its items (keys of a dict are
  distinct, which theorems that depend on it assume as \<open>distinct (map fst kvs)\<close>).
\<close>

datatype json =
    JNull
  | JBool bool
  | JNum rat
  | JStr string
  | JArr "json list"
  | JObj "(string \<times> json) list"

text \<open>
  What \<^verbatim>\<open>err.messages\<close> of a \<^verbatim>\<open>ValidationError\<close> reports for one key. The
  English wording of the library's messages is not modelled, only their kind;
  \<open>Within\<close> is the nested dictionary of a \<^verbatim>\<open>Nested\<close> field.
\<close>

datatype problem =
    Missing_required
  | Null_value
  | Invalid_value
  | Too_short nat
  | Unknown_field
  | Invalid_input
  | Within "(string \<times> problem) list"

text \<open>
  Exceptions that no handler of the service catches (they leave the view function,
  and the framework answers 500; \<open>DataError\<close> stands for every refusal by the
  store of a value for a typed column), and the two shapes of the service's own
  \<^verbatim>\<open>make_response(jsonify({"message": 'bad request', "error": ...}), 400)\<close>:
  a text, or the messages of a validation error.
\<close>

datatype exn = KeyError string | TypeError | IntegrityError | DataError

datatype detail = Text string | Messages "(string \<times> problem) list"

datatype failure = BadRequest detail | Uncaught exn

section \<open>Schemas (lines 65-109)\<close>

text \<open>
  The formats that the validation library decides by regular expressions and by
  \<^verbatim>\<open>strptime\<close>/\<^verbatim>\<open>float\<close> are parameters of the model: which strings are
  e-mail addresses, which strings are dates in \<^verbatim>\<open>%Y-%m-%d\<close>, and which (non-null)
  values a \<^verbatim>\<open>fields.Float\<close> accepts as numbers. So is the text that a dump writes
  for a stored datetime: \<open>render_date\<close> is \<^verbatim>\<open>fields.Date(format='%Y-%m-%d')\<close>
  (line 84), \<open>render_iso\<close> the ISO text of the field that the library infers for a
  \<^verbatim>\<open>DateTime\<close> column where the schema declares none.
\<close>

record formats =
  email_ok :: "string \<Rightarrow> bool"
  date_ok :: "string \<Rightarrow> bool"
  float_ok :: "json \<Rightarrow> bool"
  render_date :: "json \<Rightarrow> json"
  render_iso :: "json \<Rightarrow> json"

text \<open>A field: whether it is declared \<^verbatim>\<open>required=True\<close>, and its check of a non-null value.\<close>

type_synonym field = "bool \<times> (json \<Rightarrow> problem option)"

text \<open>\<^verbatim>\<open>fields.String(validate=validate.Length(min=n))\<close>; no validator is \<open>n = 0\<close>.\<close>

fun String_field :: "nat \<Rightarrow> json \<Rightarrow> problem option" where
  "String_field n (JStr s) = (if length s < n then Some (Too_short n) else None)"
| "String_field n _ = Some Invalid_value"

fun Email_field :: "formats \<Rightarrow> json \<Rightarrow> problem option" where
  "Email_field V (JStr s) = (if email_ok V s then None else Some Invalid_value)"
| "Email_field V _ = Some Invalid_value"

fun Date_field :: "formats \<Rightarrow> json \<Rightarrow> problem option" where
  "Date_field V (JStr s) = (if date_ok V s then None else Some Invalid_value)"
| "Date_field V _ = Some Invalid_value"

definition Float_field :: "formats \<Rightarrow> json \<Rightarrow> problem option" where
  "Float_field V v = (if float_ok V v then None else Some Invalid_value)"

text \<open>
  A name listed in \<^verbatim>\<open>Meta.fields\<close> with no declaration in the class body
  (\<^verbatim>\<open>id\<close>, \<^verbatim>\<open>customer_id\<close>, \<^verbatim>\<open>state\<close>, \<^verbatim>\<open>order_id\<close>): any non-null value loads.
\<close>

definition Inferred :: field where
  "Inferred = (False, \<lambda>v. None)"

text \<open>
  \<^verbatim>\<open>Field.deserialize\<close>: an absent key is an error only for a required field of a
  load that is not partial; \<^verbatim>\<open>null\<close> is refused; otherwise the field's check.
\<close>

definition deserialize :: "bool \<Rightarrow> field \<Rightarrow> json option \<Rightarrow> problem option" where
  "deserialize partial f v =
     (case v of
        None \<Rightarrow> (if fst f \<and> \<not> partial then Some Missing_required else None)
      | Some JNull \<Rightarrow> Some Null_value
      | Some x \<Rightarrow> snd f x)"

text \<open>
  \<^verbatim>\<open>Schema.load\<close> of a dict: the problems of the schema's fields, then every key of
  the input that is no field of the schema (the library's default \<^verbatim>\<open>unknown=RAISE\<close>).
  The empty list is a load that raises nothing.
\<close>

definition load_dict ::
  "bool \<Rightarrow> (string \<times> field) list \<Rightarrow> (string \<times> json) list \<Rightarrow> (string \<times> problem) list" where
  "load_dict partial fs kvs =
     List.map_filter (\<lambda>(k, f). map_option (Pair k) (deserialize partial f (map_of kvs k))) fs
     @ map (\<lambda>k. (k, Unknown_field)) (filter (\<lambda>k. k \<notin> set (map fst fs)) (map fst kvs))"

fun load :: "bool \<Rightarrow> (string \<times> field) list \<Rightarrow> json \<Rightarrow> (string \<times> problem) list" where
  "load partial fs (JObj kvs) = load_dict partial fs kvs"
| "load partial fs _ = [(''_schema'', Invalid_input)]"

text \<open>\<^verbatim>\<open>ma.Nested(S)\<close>: the value is loaded by the nested schema, partial as the outer load is.\<close>

definition Nested_field :: "bool \<Rightarrow> (string \<times> field) list \<Rightarrow> json \<Rightarrow> problem option" where
  "Nested_field partial fs v =
     (case load partial fs v of [] \<Rightarrow> None | e # es \<Rightarrow> Some (Within (e # es)))"

text \<open>Lines 65-74. Only \<^verbatim>\<open>email\<close> is declared without \<^verbatim>\<open>required=True\<close>.\<close>

definition CustomerSchema :: "formats \<Rightarrow> (string \<times> field) list" where
  "CustomerSchema V =
     [(''id'', Inferred),
      (''name'', (True, String_field 3)),
      (''email'', (False, Email_field V)),
      (''phone'', (True, String_field 10)),
      (''address'', (True, String_field 0)),
      (''nationality'', (True, String_field 0))]"

text \<open>Lines 78-84.\<close>

definition OrderSchema :: "formats \<Rightarrow> bool \<Rightarrow> (string \<times> field) list" where
  "OrderSchema V partial =
     [(''id'', Inferred),
      (''customer_id'', Inferred),
      (''date'', (True, Date_field V)),
      (''state'', Inferred),
      (''customer'', (False, Nested_field partial (CustomerSchema V)))]"

text \<open>Lines 86-93.\<close>

definition ItemSchema :: "formats \<Rightarrow> bool \<Rightarrow> (string \<times> field) list" where
  "ItemSchema V partial =
     [(''id'', Inferred),
      (''order_id'', Inferred),
      (''width'', (True, Float_field V)),
      (''length'', (True, Float_field V)),
      (''order'', (False, Nested_field partial (OrderSchema V partial)))]"

section \<open>Persisted state (lines 19-62)\<close>

text \<open>
  The engine behind \<^verbatim>\<open>DATABASE_URI\<close> is a parameter of the model. The view
  functions hand it values that it converts or refuses:
  \<^item> \<open>key_of\<close>: the path segment \<^verbatim>\<open>id\<close> of a route, any text, compared with an
    integer key. The engine raises (\<open>Refused\<close>), or finds that the text can equal no
    key (\<open>Unmatched\<close>), or compares with the number that it reads (\<open>Key\<close>).
  \<^item> \<open>integer_column\<close>, \<open>datetime_column\<close>, \<open>float_column\<close>: the value that the
    column stores for the raw value of a request, \<open>None\<close> when the engine or its
    driver raises.
  \<^item> \<open>customer_rank\<close>, \<open>order_rank\<close>, \<open>item_rank\<close>: the order in which a query
    with no \<^verbatim>\<open>ORDER BY\<close> returns the rows of a table, as a rank of their
    identifiers.
  The widths of the string columns are not modelled: a string is stored as it is.
\<close>

datatype key = Refused | Unmatched | Key nat

record engine =
  key_of :: "string \<Rightarrow> key"
  integer_column :: "json \<Rightarrow> nat option"
  datetime_column :: "json \<Rightarrow> json option"
  float_column :: "json \<Rightarrow> json option"
  customer_rank :: "nat \<Rightarrow> nat"
  order_rank :: "nat \<Rightarrow> nat"
  item_rank :: "nat \<Rightarrow> nat"

text \<open>
  The three tables. The five string columns of a customer hold the raw value of the
  request (after validation, a JSON string); \<^verbatim>\<open>date\<close>, \<^verbatim>\<open>width\<close> and \<^verbatim>\<open>length\<close>
  hold what the engine made of it. \<^verbatim>\<open>state\<close> is only ever assigned string
  literals. Identifiers are assigned by the store from a counter per table. The
  columns are named with the initial of their table, since \<open>id\<close> and \<open>length\<close>
  are constants of the logic.
\<close>

record customer =
  c_id :: nat
  c_name :: json
  c_email :: json
  c_phone :: json
  c_address :: json
  c_nationality :: json

record order =
  o_id :: nat
  o_customer_id :: nat
  o_date :: json
  o_state :: string

record item =
  i_id :: nat
  i_order_id :: nat
  i_width :: json
  i_length :: json

record db =
  customers :: "customer list"
  orders :: "order list"
  items :: "item list"
  next_customer :: nat
  next_order :: nat
  next_item :: nat

text \<open>The store after \<^verbatim>\<open>db.create_all()\<close> on an empty database.\<close>

definition init_db :: db where
  "init_db = \<lparr>customers = [], orders = [], items = [],
              next_customer = 1, next_order = 1, next_item = 1\<rparr>"

text \<open>The row of a table with a given key.\<close>

definition customer_row :: "db \<Rightarrow> nat \<Rightarrow> customer option" where
  "customer_row d n = find (\<lambda>c. c_id c = n) (customers d)"

definition order_row :: "db \<Rightarrow> nat \<Rightarrow> order option" where
  "order_row d n = find (\<lambda>o1. o_id o1 = n) (orders d)"

text \<open>
  \<^verbatim>\<open>Model.query.filter_by(id=id).first()\<close> on each table, with the text of the
  route for \<^verbatim>\<open>id\<close>: the engine raises, or the query returns a row or \<^verbatim>\<open>None\<close>.
\<close>

definition customer_by_id :: "engine \<Rightarrow> db \<Rightarrow> string \<Rightarrow> exn + customer option" where
  "customer_by_id E d i =
     (case key_of E i of
        Refused \<Rightarrow> Inl DataError
      | Unmatched \<Rightarrow> Inr None
      | Key n \<Rightarrow> Inr (customer_row d n))"

definition order_by_id :: "engine \<Rightarrow> db \<Rightarrow> string \<Rightarrow> exn + order option" where
  "order_by_id E d i =
     (case key_of E i of
        Refused \<Rightarrow> Inl DataError
      | Unmatched \<Rightarrow> Inr None
      | Key n \<Rightarrow> Inr (order_row d n))"

text \<open>
  The relationship \<^verbatim>\<open>order.items\<close> (line 40): the items whose foreign key is the
  order, in the order in which the engine returns them.
\<close>

definition items_of :: "engine \<Rightarrow> db \<Rightarrow> order \<Rightarrow> item list" where
  "items_of E d o1 =
     sort_key (\<lambda>it. item_rank E (i_id it)) (filter (\<lambda>it. i_order_id it = o_id o1) (items d))"

text \<open>Assigning to an attribute of the row that a query returned first, then committing.\<close>

fun update_first :: "('a \<Rightarrow> bool) \<Rightarrow> ('a \<Rightarrow> 'a) \<Rightarrow> 'a list \<Rightarrow> 'a list" where
  "update_first P f [] = []"
| "update_first P f (x # xs) = (if P x then f x # xs else x # update_first P f xs)"

fun remove_first :: "('a \<Rightarrow> bool) \<Rightarrow> 'a list \<Rightarrow> 'a list" where
  "remove_first P [] = []"
| "remove_first P (x # xs) = (if P x then xs else x # remove_first P xs)"

section \<open>Serialisation (\<^verbatim>\<open>Schema.dump\<close>)\<close>

text \<open>
  Each schema dumps the names of its \<^verbatim>\<open>Meta.fields\<close>; a \<^verbatim>\<open>Nested\<close> field dumps
  the related row by the nested schema (\<^verbatim>\<open>null\<close> when there is no related row).
  \<^verbatim>\<open>OrderSchema\<close> declares \<^verbatim>\<open>date\<close> as a \<^verbatim>\<open>Date\<close> with a format;
  \<^verbatim>\<open>OrderItemsSchema\<close> declares no field for it, so there the stored datetime is
  written in ISO form.
\<close>

definition dump_customer :: "customer \<Rightarrow> json" where
  "dump_customer c =
     JObj [(''id'', JNum (of_nat (c_id c))),
           (''name'', c_name c),
           (''email'', c_email c),
           (''phone'', c_phone c),
           (''address'', c_address c),
           (''nationality'', c_nationality c)]"

definition dump_order :: "formats \<Rightarrow> db \<Rightarrow> order \<Rightarrow> json" where
  "dump_order V d o1 =
     JObj [(''id'', JNum (of_nat (o_id o1))),
           (''customer_id'', JNum (of_nat (o_customer_id o1))),
           (''date'', render_date V (o_date o1)),
           (''state'', JStr (o_state o1)),
           (''customer'',
              (case customer_row d (o_customer_id o1) of
                 None \<Rightarrow> JNull
               | Some c \<Rightarrow> dump_customer c))]"

definition dump_item :: "formats \<Rightarrow> db \<Rightarrow> item \<Rightarrow> json" where
  "dump_item V d it =
     JObj [(''id'', JNum (of_nat (i_id it))),
           (''order_id'', JNum (of_nat (i_order_id it))),
           (''width'', i_width it),
           (''length'', i_length it),
           (''order'',
              (case order_row d (i_order_id it) of
                 None \<Rightarrow> JNull
               | Some o1 \<Rightarrow> dump_order V d o1))]"

text \<open>\<^verbatim>\<open>OrderItemsSchema\<close> (lines 95-100): \<^verbatim>\<open>items = ma.Nested(ItemSchema, many=True)\<close>.\<close>

definition dump_order_items :: "engine \<Rightarrow> formats \<Rightarrow> db \<Rightarrow> order \<Rightarrow> json" where
  "dump_order_items E V d o1 =
     JObj [(''id'', JNum (of_nat (o_id o1))),
           (''customer_id'', JNum (of_nat (o_customer_id o1))),
           (''date'', render_iso V (o_date o1)),
           (''state'', JStr (o_state o1)),
           (''items'', JArr (map (dump_item V d) (items_of E d o1)))]"

section \<open>Endpoints (lines 113-248)\<close>

text \<open>
  A view function takes the store and returns the store after the request together
  with the response: \<open>Inr\<close> the JSON of a 200 response, \<open>Inl\<close> a failure
  (so \<open>isl\<close> holds of the response exactly when the request failed).
\<close>

text \<open>\<^verbatim>\<open>request.json[k]\<close>.\<close>

fun subscript :: "json \<Rightarrow> string \<Rightarrow> failure + json" where
  "subscript (JObj kvs) k =
     (case map_of kvs k of None \<Rightarrow> Inl (Uncaught (KeyError k)) | Some v \<Rightarrow> Inr v)"
| "subscript _ k = Inl (Uncaught TypeError)"

text \<open>\<^verbatim>\<open>request.json.items()\<close>.\<close>

fun dict_items :: "json \<Rightarrow> (string \<times> json) list" where
  "dict_items (JObj kvs) = kvs"
| "dict_items _ = []"

text \<open>Lines 113-137.\<close>

definition create_customer :: "formats \<Rightarrow> db \<Rightarrow> json \<Rightarrow> db \<times> (failure + json)" where
  "create_customer V d body =
     (case load False (CustomerSchema V) body of
        e # es \<Rightarrow> (d, Inl (BadRequest (Messages (e # es))))
      | [] \<Rightarrow>
     (case subscript body ''email'' of Inl x \<Rightarrow> (d, Inl x) | Inr email \<Rightarrow>
      if list_ex (\<lambda>c. c_email c = email) (customers d)
      then (d, Inl (BadRequest (Text ''user with this email already exists'')))
      else
     (case subscript body ''phone'' of Inl x \<Rightarrow> (d, Inl x) | Inr phone \<Rightarrow>
      if list_ex (\<lambda>c. c_phone c = phone) (customers d)
      then (d, Inl (BadRequest (Text ''user with this phone already exists'')))
      else
     (case subscript body ''name'' of Inl x \<Rightarrow> (d, Inl x) | Inr name \<Rightarrow>
     (case subscript body ''address'' of Inl x \<Rightarrow> (d, Inl x) | Inr address \<Rightarrow>
     (case subscript body ''nationality'' of Inl x \<Rightarrow> (d, Inl x) | Inr nationality \<Rightarrow>
        let new_customer =
              \<lparr>c_id = next_customer d, c_name = name, c_email = email, c_phone = phone,
               c_address = address, c_nationality = nationality\<rparr>
        in (d\<lparr>customers := customers d @ [new_customer],
              next_customer := Suc (next_customer d)\<rparr>,
            Inr (dump_customer new_customer))))))))"

text \<open>Lines 141-145. The query has no \<^verbatim>\<open>ORDER BY\<close>.\<close>

definition get_customers :: "engine \<Rightarrow> db \<Rightarrow> db \<times> (failure + json)" where
  "get_customers E d =
     (d, Inr (JArr (map dump_customer
                  (sort_key (\<lambda>c. customer_rank E (c_id c)) (customers d)))))"

text \<open>
  The attributes of the Python object that a query returns for a row, by name, and
  \<^verbatim>\<open>setattr(customer, attr, val)\<close>, which assigns whatever the name is: also
  \<^verbatim>\<open>id\<close>, the primary key.
\<close>

definition column :: "customer \<Rightarrow> string \<Rightarrow> json option" where
  "column c attr =
     (if attr = ''id'' then Some (JNum (of_nat (c_id c)))
      else if attr = ''name'' then Some (c_name c)
      else if attr = ''email'' then Some (c_email c)
      else if attr = ''phone'' then Some (c_phone c)
      else if attr = ''address'' then Some (c_address c)
      else if attr = ''nationality'' then Some (c_nationality c)
      else None)"

definition setattr :: "(string \<Rightarrow> json option) \<Rightarrow> string \<Rightarrow> json \<Rightarrow> (string \<Rightarrow> json option)" where
  "setattr obj attr val = obj(attr \<mapsto> val)"

text \<open>
  What the commit writes for the object of row \<open>c\<close>: the six columns from the
  attributes of their names (an attribute of another name is no column). An
  \<^verbatim>\<open>id\<close> that was assigned another value goes through the integer column, which
  may refuse it.
\<close>

definition attr_or :: "(string \<Rightarrow> json option) \<Rightarrow> string \<Rightarrow> json \<Rightarrow> json" where
  "attr_or obj attr v = (case obj attr of None \<Rightarrow> v | Some w \<Rightarrow> w)"

definition flush :: "engine \<Rightarrow> customer \<Rightarrow> (string \<Rightarrow> json option) \<Rightarrow> exn + customer" where
  "flush E c obj =
     (case (if attr_or obj ''id'' (JNum (of_nat (c_id c))) = JNum (of_nat (c_id c))
            then Some (c_id c)
            else integer_column E (attr_or obj ''id'' (JNum (of_nat (c_id c))))) of
        None \<Rightarrow> Inl DataError
      | Some n \<Rightarrow>
          Inr \<lparr>c_id = n,
               c_name = attr_or obj ''name'' (c_name c),
               c_email = attr_or obj ''email'' (c_email c),
               c_phone = attr_or obj ''phone'' (c_phone c),
               c_address = attr_or obj ''address'' (c_address c),
               c_nationality = attr_or obj ''nationality'' (c_nationality c)\<rparr>)"

text \<open>
  The primary key and the store's \<^verbatim>\<open>unique=True\<close> on \<^verbatim>\<open>email\<close> and \<^verbatim>\<open>phone\<close>
  (lines 20-23): a commit that would leave the row \<open>c'\<close>, written in place of the
  row \<open>c\<close>, equal to another row in one of them raises, and nothing is written.
\<close>

definition collides :: "customer \<Rightarrow> customer \<Rightarrow> customer list \<Rightarrow> bool" where
  "collides c c' cs =
     list_ex (\<lambda>r. c_id r \<noteq> c_id c \<and>
                  (c_id r = c_id c' \<or> c_email r = c_email c' \<or> c_phone r = c_phone c')) cs"

text \<open>Lines 147-163.\<close>

definition update_customer ::
  "engine \<Rightarrow> formats \<Rightarrow> db \<Rightarrow> string \<Rightarrow> json \<Rightarrow> db \<times> (failure + json)" where
  "update_customer E V d i body =
     (case customer_by_id E d i of
        Inl x \<Rightarrow> (d, Inl (Uncaught x))
      | Inr None \<Rightarrow> (d, Inl (BadRequest (Text ''user not found'')))
      | Inr (Some customer) \<Rightarrow>
     (case load True (CustomerSchema V) body of
        e # es \<Rightarrow> (d, Inl (BadRequest (Messages (e # es))))
      | [] \<Rightarrow>
        let obj = fold (\<lambda>(attr, val) obj. if \<not> attr = ''id'' then setattr obj attr val else obj)
                    (dict_items body) (column customer)
        in (case flush E customer obj of
              Inl x \<Rightarrow> (d, Inl (Uncaught x))
            | Inr customer' \<Rightarrow>
                if collides customer customer' (customers d)
                then (d, Inl (Uncaught IntegrityError))
                else (d\<lparr>customers :=
                          update_first (\<lambda>c. c_id c = c_id customer) (\<lambda>c. customer') (customers d)\<rparr>,
                      Inr (dump_customer customer')))))"

text \<open>
  Lines 165-173. The relationship \<^verbatim>\<open>orders\<close> (line 26) declares no cascade, so
  deleting a customer who has orders sets their \<^verbatim>\<open>customer_id\<close> to null, which
  \<^verbatim>\<open>nullable=False\<close> (line 37) refuses at the commit.
\<close>

definition delete_customer :: "engine \<Rightarrow> db \<Rightarrow> string \<Rightarrow> db \<times> (failure + json)" where
  "delete_customer E d i =
     (case customer_by_id E d i of
        Inl x \<Rightarrow> (d, Inl (Uncaught x))
      | Inr None \<Rightarrow> (d, Inl (BadRequest (Text ''user not found'')))
      | Inr (Some customer) \<Rightarrow>
          if list_ex (\<lambda>o1. o_customer_id o1 = c_id customer) (orders d)
          then (d, Inl (Uncaught IntegrityError))
          else (d\<lparr>customers := remove_first (\<lambda>c. c_id c = c_id customer) (customers d)\<rparr>,
                Inr (dump_customer customer)))"

text \<open>
  Lines 175-192. The constructor is given the customer as well as the text of the
  route, and the relationship sets the foreign key from the customer's key. The
  raw \<^verbatim>\<open>request.json['date']\<close> goes to the \<^verbatim>\<open>DateTime\<close> column (line 38).
\<close>

definition create_order ::
  "engine \<Rightarrow> formats \<Rightarrow> db \<Rightarrow> string \<Rightarrow> json \<Rightarrow> db \<times> (failure + json)" where
  "create_order E V d i body =
     (case customer_by_id E d i of
        Inl x \<Rightarrow> (d, Inl (Uncaught x))
      | Inr None \<Rightarrow> (d, Inl (BadRequest (Text ''user not found'')))
      | Inr (Some customer) \<Rightarrow>
     (case load False (OrderSchema V False) body of
        e # es \<Rightarrow> (d, Inl (BadRequest (Messages (e # es))))
      | [] \<Rightarrow>
     (case subscript body ''date'' of Inl x \<Rightarrow> (d, Inl x) | Inr date \<Rightarrow>
     (case datetime_column E date of
        None \<Rightarrow> (d, Inl (Uncaught DataError))
      | Some stored \<Rightarrow>
        let state = ''Solicitada'';
            new_order = \<lparr>o_id = next_order d, o_customer_id = c_id customer, o_date = stored,
                         o_state = state\<rparr>;
            d' = d\<lparr>orders := orders d @ [new_order], next_order := Suc (next_order d)\<rparr>
        in (d', Inr (dump_order V d' new_order))))))"

text \<open>Lines 194-198. The query has no \<^verbatim>\<open>ORDER BY\<close>.\<close>

definition get_orders :: "engine \<Rightarrow> formats \<Rightarrow> db \<Rightarrow> db \<times> (failure + json)" where
  "get_orders E V d =
     (d, Inr (JArr (map (dump_order V d)
                  (sort_key (\<lambda>o1. order_rank E (o_id o1)) (orders d)))))"

text \<open>Lines 200-215.\<close>

definition update_order ::
  "engine \<Rightarrow> formats \<Rightarrow> db \<Rightarrow> string \<Rightarrow> string \<Rightarrow> db \<times> (failure + json)" where
  "update_order E V d i sw =
     (case order_by_id E d i of
        Inl x \<Rightarrow> (d, Inl (Uncaught x))
      | Inr None \<Rightarrow> (d, Inl (BadRequest (Text ''order not found'')))
      | Inr (Some order) \<Rightarrow>
          if sw = ''1'' then
            let d' = d\<lparr>orders := update_first (\<lambda>o1. o_id o1 = o_id order)
                                   (\<lambda>o1. o1\<lparr>o_state := ''Aprobada''\<rparr>) (orders d)\<rparr>
            in (d', Inr (dump_order V d' (order\<lparr>o_state := ''Aprobada''\<rparr>)))
          else if sw = ''0'' then
            let d' = d\<lparr>orders := update_first (\<lambda>o1. o_id o1 = o_id order)
                                   (\<lambda>o1. o1\<lparr>o_state := ''Anulada''\<rparr>) (orders d)\<rparr>
            in (d', Inr (dump_order V d' (order\<lparr>o_state := ''Anulada''\<rparr>)))
          else (d, Inl (BadRequest (Text ''param error''))))"

text \<open>
  Lines 218-239. The foreign key is set from the order's key, as for an order. The
  raw \<^verbatim>\<open>width\<close> and \<^verbatim>\<open>length\<close> of the request go to the \<^verbatim>\<open>Float\<close> columns
  (lines 52-53).
\<close>

definition create_item ::
  "engine \<Rightarrow> formats \<Rightarrow> db \<Rightarrow> string \<Rightarrow> json \<Rightarrow> db \<times> (failure + json)" where
  "create_item E V d i body =
     (case order_by_id E d i of
        Inl x \<Rightarrow> (d, Inl (Uncaught x))
      | Inr None \<Rightarrow> (d, Inl (BadRequest (Text ''order not found'')))
      | Inr (Some order) \<Rightarrow>
     (case load False (ItemSchema V False) body of
        e # es \<Rightarrow> (d, Inl (BadRequest (Messages (e # es))))
      | [] \<Rightarrow>
      if o_state order \<noteq> ''Solicitada''
      then (d, Inl (BadRequest (Text ''order probably approved or rejected, you cannot add items'')))
      else
     (case subscript body ''width'' of Inl x \<Rightarrow> (d, Inl x) | Inr width \<Rightarrow>
     (case subscript body ''length'' of Inl x \<Rightarrow> (d, Inl x) | Inr length1 \<Rightarrow>
     (case float_column E width of None \<Rightarrow> (d, Inl (Uncaught DataError)) | Some w \<Rightarrow>
     (case float_column E length1 of None \<Rightarrow> (d, Inl (Uncaught DataError)) | Some l \<Rightarrow>
        let new_item = \<lparr>i_id = next_item d, i_order_id = o_id order, i_width = w, i_length = l\<rparr>;
            d' = d\<lparr>items := items d @ [new_item], next_item := Suc (next_item d)\<rparr>
        in (d', Inr (dump_item V d' new_item))))))))"

text \<open>Lines 241-248.\<close>

definition get_order :: "engine \<Rightarrow> formats \<Rightarrow> db \<Rightarrow> string \<Rightarrow> db \<times> (failure + json)" where
  "get_order E V d i =
     (case order_by_id E d i of
        Inl x \<Rightarrow> (d, Inl (Uncaught x))
      | Inr None \<Rightarrow> (d, Inl (BadRequest (Text ''Order not found'')))
      | Inr (Some order) \<Rightarrow> (d, Inr (dump_order_items E V d order)))"

section \<open>Routing: a client's requests served in sequence\<close>

text \<open>The nine routes of the service, and the store threaded through a list of requests.\<close>

datatype request =
    CreateCustomer json
  | GetCustomers
  | UpdateCustomer string json
  | DeleteCustomer string
  | CreateOrder string json
  | GetOrders
  | UpdateOrder string string
  | CreateItem string json
  | GetOrder string

fun handle :: "engine \<Rightarrow> formats \<Rightarrow> db \<Rightarrow> request \<Rightarrow> db \<times> (failure + json)" where
  "handle E V d (CreateCustomer body) = create_customer V d body"
| "handle E V d GetCustomers = get_customers E d"
| "handle E V d (UpdateCustomer i body) = update_customer E V d i body"
| "handle E V d (DeleteCustomer i) = delete_customer E d i"
| "handle E V d (CreateOrder i body) = create_order E V d i body"
| "handle E V d GetOrders = get_orders E V d"
| "handle E V d (UpdateOrder i sw) = update_order E V d i sw"
| "handle E V d (CreateItem i body) = create_item E V d i body"
| "handle E V d (GetOrder i) = get_order E V d i"

fun serve :: "engine \<Rightarrow> formats \<Rightarrow> db \<Rightarrow> request list \<Rightarrow> db" where
  "serve E V d [] = d"
| "serve E V d (r # rs) = serve E V (fst (handle E V d r)) rs"

text \<open>How many requests of a sequence satisfy \<open>P\<close> in the store they are served from.\<close>

fun count_served ::
  "(db \<Rightarrow> request \<Rightarrow> bool) \<Rightarrow> engine \<Rightarrow> formats \<Rightarrow> db \<Rightarrow> request list \<Rightarrow> nat" where
  "count_served P E V d [] = 0"
| "count_served P E V d (r # rs) =
     (if P d r then 1 else 0) + count_served P E V (fst (handle E V d r)) rs"

text \<open>A \<^verbatim>\<open>POST /item/j\<close> whose \<^verbatim>\<open>j\<close> finds the order with key \<open>n\<close> and that is answered 200.\<close>

fun item_created :: "engine \<Rightarrow> formats \<Rightarrow> nat \<Rightarrow> db \<Rightarrow> request \<Rightarrow> bool" where
  "item_created E V n d (CreateItem j body) =
     ((case order_by_id E d j of Inr (Some ord) \<Rightarrow> o_id ord = n | _ \<Rightarrow> False)
      \<and> \<not> isl (snd (create_item E V d j body)))"
| "item_created E V n d _ = False"

text \<open>The same, served while the order's state is \<^verbatim>\<open>"Solicitada"\<close>.\<close>

definition item_created_while_requested ::
  "engine \<Rightarrow> formats \<Rightarrow> nat \<Rightarrow> db \<Rightarrow> request \<Rightarrow> bool" where
  "item_created_while_requested E V n d r =
     (item_created E V n d r \<and> map_option o_state (order_row d n) = Some ''Solicitada'')"

section \<open>A worked scenario\<close>

text \<open>
  Formats that accept one address, two dates (\<^verbatim>\<open>strptime\<close> reads
  \<^verbatim>\<open>2024-1-5\<close> as well), the JSON numbers and the text
  \<^verbatim>\<open>1_000\<close> (which Python's \<^verbatim>\<open>float\<close> reads as 1000); an engine in the manner of
  PostgreSQL, which reads a key of one to nine decimal digits and refuses any other
  text for a key, stores a JSON number in a float column and refuses any other
  value for it, and stores a date as the datetime at its midnight; and the
  requests register customer, create order, add item. These are the concrete inputs
  of the examples below.
\<close>

definition scenario_formats :: formats where
  "scenario_formats =
     \<lparr>email_ok = (\<lambda>s. s = ''ana@x.com''),
      date_ok = (\<lambda>s. s = ''2024-01-10'' \<or> s = ''2024-1-5''),
      float_ok = (\<lambda>v. case v of JNum x \<Rightarrow> True | JStr s \<Rightarrow> s = ''1_000'' | _ \<Rightarrow> False),
      render_date = (\<lambda>v. case v of JStr s \<Rightarrow> JStr (take 10 s) | _ \<Rightarrow> v),
      render_iso = (\<lambda>v. case v of JStr s \<Rightarrow> JStr (take 10 s @ ''T'' @ drop 11 s) | _ \<Rightarrow> v)\<rparr>"

definition digit :: "char \<Rightarrow> nat option" where
  "digit c =
     map_of [(CHR ''0'', 0), (CHR ''1'', 1), (CHR ''2'', 2), (CHR ''3'', 3), (CHR ''4'', 4),
             (CHR ''5'', 5), (CHR ''6'', 6), (CHR ''7'', 7), (CHR ''8'', 8), (CHR ''9'', 9)] c"

fun digits :: "nat \<Rightarrow> string \<Rightarrow> nat option" where
  "digits n [] = Some n"
| "digits n (c # cs) = (case digit c of None \<Rightarrow> None | Some k \<Rightarrow> digits (10 * n + k) cs)"

definition scenario_engine :: engine where
  "scenario_engine =
     \<lparr>key_of = (\<lambda>s. if s = [] \<or> 9 < length s then Refused
                       else (case digits 0 s of None \<Rightarrow> Refused | Some n \<Rightarrow> Key n)),
      integer_column = (\<lambda>v. case v of
                          JNum x \<Rightarrow> if 0 \<le> x \<and> of_int \<lfloor>x\<rfloor> = x then Some (nat \<lfloor>x\<rfloor>) else None
                        | _ \<Rightarrow> None),
      datetime_column = (\<lambda>v. if v = JStr ''2024-01-10'' then Some (JStr ''2024-01-10 00:00:00'')
                              else if v = JStr ''2024-1-5'' then Some (JStr ''2024-01-05 00:00:00'')
                              else None),
      float_column = (\<lambda>v. case v of JNum x \<Rightarrow> Some (JNum x) | _ \<Rightarrow> None),
      customer_rank = (\<lambda>n. n),
      order_rank = (\<lambda>n. n),
      item_rank = (\<lambda>n. n)\<rparr>"

definition ana_body :: json where
  "ana_body =
     JObj [(''name'', JStr ''Ana Cruz''), (''email'', JStr ''ana@x.com''),
           (''phone'', JStr ''5551234567''), (''address'', JStr ''Main St''),
           (''nationality'', JStr ''MX'')]"

definition ana :: customer where
  "ana = \<lparr>c_id = 1, c_name = JStr ''Ana Cruz'', c_email = JStr ''ana@x.com'',
          c_phone = JStr ''5551234567'', c_address = JStr ''Main St'',
          c_nationality = JStr ''MX''\<rparr>"

definition order1 :: order where
  "order1 = \<lparr>o_id = 1, o_customer_id = 1, o_date = JStr ''2024-01-10 00:00:00'',
             o_state = ''Solicitada''\<rparr>"

definition item1 :: item where
  "item1 = \<lparr>i_id = 1, i_order_id = 1, i_width = JNum 2, i_length = JNum 3\<rparr>"

definition db_customer :: db where
  "db_customer = \<lparr>customers = [ana], orders = [], items = [],
                  next_customer = 2, next_order = 1, next_item = 1\<rparr>"

definition db_order :: db where
  "db_order = \<lparr>customers = [ana], orders = [order1], items = [],
               next_customer = 2, next_order = 2, next_item = 1\<rparr>"

definition db_item :: db where
  "db_item = \<lparr>customers = [ana], orders = [order1], items = [item1],
              next_customer = 2, next_order = 2, next_item = 2\<rparr>"

definition db_approved :: db where
  "db_approved = \<lparr>customers = [ana], orders = [order1\<lparr>o_state := ''Aprobada''\<rparr>], items = [item1],
                  next_customer = 2, next_order = 2, next_item = 2\<rparr>"

text \<open>
  The end-to-end scenario: register, order, add an item, approve, try to add another
  item.
\<close>

definition scenario :: "request list" where
  "scenario =
     [CreateCustomer ana_body,
      CreateOrder ''1'' (JObj [(''date'', JStr ''2024-01-10'')]),
      CreateItem ''1'' (JObj [(''width'', JNum 2), (''length'', JNum 3)]),
      UpdateOrder ''1'' ''1'',
      CreateItem ''1'' (JObj [(''width'', JNum 2), (''length'', JNum 3)])]"


section \<open>What a load that raises nothing guarantees\<close>

lemma map_filter_Nil_iff: "List.map_filter g xs = [] \<longleftrightarrow> (\<forall>x\<in>set xs. g x = None)"
  by (induction xs) (auto split: option.splits)

lemma in_set_map_filter: "y \<in> set (List.map_filter g xs) \<longleftrightarrow> (\<exists>x\<in>set xs. g x = Some y)"
  by (induction xs) (auto split: option.splits)

lemma load_dict_Nil_iff:
  "load_dict partial fs kvs = [] \<longleftrightarrow>
     (\<forall>(k, f)\<in>set fs. deserialize partial f (map_of kvs k) = None) \<and>
     fst ` set kvs \<subseteq> fst ` set fs"
  by (auto simp: load_dict_def map_filter_Nil_iff filter_empty_conv split: prod.splits)

lemma load_Nil_iff:
  "load partial fs body = [] \<longleftrightarrow>
     (\<exists>kvs. body = JObj kvs
        \<and> (\<forall>(k, f)\<in>set fs. deserialize partial f (map_of kvs k) = None)
        \<and> fst ` set kvs \<subseteq> fst ` set fs)"
  by (cases body) (simp_all add: load_dict_Nil_iff)

lemma load_dict_reports:
  "(k, f) \<in> set fs \<Longrightarrow> deserialize partial f (map_of kvs k) = Some p
     \<Longrightarrow> (k, p) \<in> set (load_dict partial fs kvs)"
  by (force simp: load_dict_def in_set_map_filter)

lemma deserialize_required:
  "deserialize False (True, chk) v = None \<longleftrightarrow> (\<exists>x. v = Some x \<and> x \<noteq> JNull \<and> chk x = None)"
  by (auto simp: deserialize_def split: option.splits json.splits)

lemma Date_field_None: "Date_field V x = None \<longleftrightarrow> (\<exists>s. x = JStr s \<and> date_ok V s)"
  by (cases x) auto

text \<open>The bodies that each schema accepts.\<close>

lemma deserialize_Inferred: "deserialize partial Inferred v = None \<longleftrightarrow> v \<noteq> Some JNull"
  by (auto simp: deserialize_def Inferred_def split: option.splits json.splits)

lemma deserialize_Nested:
  "deserialize partial (False, Nested_field partial fs) v = None \<longleftrightarrow>
     (case v of None \<Rightarrow> True | Some x \<Rightarrow> x \<noteq> JNull \<and> load partial fs x = [])"
  by (auto simp: deserialize_def Nested_field_def split: option.splits json.splits list.splits)

lemma customer_load_accepts:
  "load partial (CustomerSchema V) (JObj kvs) = [] \<longleftrightarrow>
     fst ` set kvs \<subseteq> {''id'', ''name'', ''email'', ''phone'', ''address'', ''nationality''}
   \<and> deserialize partial Inferred (map_of kvs ''id'') = None
   \<and> deserialize partial (True, String_field 3) (map_of kvs ''name'') = None
   \<and> deserialize partial (False, Email_field V) (map_of kvs ''email'') = None
   \<and> deserialize partial (True, String_field 10) (map_of kvs ''phone'') = None
   \<and> deserialize partial (True, String_field 0) (map_of kvs ''address'') = None
   \<and> deserialize partial (True, String_field 0) (map_of kvs ''nationality'') = None"
  by (simp add: load_dict_Nil_iff CustomerSchema_def conj_ac insert_commute)

lemma order_load_accepts:
  "load False (OrderSchema V False) (JObj kvs) = [] \<longleftrightarrow>
     fst ` set kvs \<subseteq> {''id'', ''customer_id'', ''date'', ''state'', ''customer''}
   \<and> (\<exists>s. map_of kvs ''date'' = Some (JStr s) \<and> date_ok V s)
   \<and> map_of kvs ''id'' \<noteq> Some JNull
   \<and> map_of kvs ''customer_id'' \<noteq> Some JNull
   \<and> map_of kvs ''state'' \<noteq> Some JNull
   \<and> (case map_of kvs ''customer'' of
         None \<Rightarrow> True
       | Some v \<Rightarrow> v \<noteq> JNull \<and> load False (CustomerSchema V) v = [])"
proof -
  have "load False (OrderSchema V False) (JObj kvs) = [] \<longleftrightarrow>
      fst ` set kvs \<subseteq> {''id'', ''customer_id'', ''date'', ''state'', ''customer''}
    \<and> deserialize False Inferred (map_of kvs ''id'') = None
    \<and> deserialize False Inferred (map_of kvs ''customer_id'') = None
    \<and> deserialize False (True, Date_field V) (map_of kvs ''date'') = None
    \<and> deserialize False Inferred (map_of kvs ''state'') = None
    \<and> deserialize False (False, Nested_field False (CustomerSchema V)) (map_of kvs ''customer'') = None"
    by (simp add: load_dict_Nil_iff OrderSchema_def conj_ac insert_commute)
  then show ?thesis
    unfolding deserialize_Inferred deserialize_Nested deserialize_required Date_field_None
    by auto
qed

lemma item_load_accepts:
  "load False (ItemSchema V False) (JObj kvs) = [] \<longleftrightarrow>
     fst ` set kvs \<subseteq> {''id'', ''order_id'', ''width'', ''length'', ''order''}
   \<and> (\<exists>w. map_of kvs ''width'' = Some w \<and> w \<noteq> JNull \<and> float_ok V w)
   \<and> (\<exists>l. map_of kvs ''length'' = Some l \<and> l \<noteq> JNull \<and> float_ok V l)
   \<and> map_of kvs ''id'' \<noteq> Some JNull
   \<and> map_of kvs ''order_id'' \<noteq> Some JNull
   \<and> (case map_of kvs ''order'' of
         None \<Rightarrow> True
       | Some v \<Rightarrow> v \<noteq> JNull \<and> load False (OrderSchema V False) v = [])"
proof -
  have "load False (ItemSchema V False) (JObj kvs) = [] \<longleftrightarrow>
      fst ` set kvs \<subseteq> {''id'', ''order_id'', ''width'', ''length'', ''order''}
    \<and> deserialize False Inferred (map_of kvs ''id'') = None
    \<and> deserialize False Inferred (map_of kvs ''order_id'') = None
    \<and> deserialize False (True, Float_field V) (map_of kvs ''width'') = None
    \<and> deserialize False (True, Float_field V) (map_of kvs ''length'') = None
    \<and> deserialize False (False, Nested_field False (OrderSchema V False)) (map_of kvs ''order'') = None"
    by (simp add: load_dict_Nil_iff ItemSchema_def conj_ac insert_commute)
  then show ?thesis
    unfolding deserialize_Inferred deserialize_Nested deserialize_required
    by (auto simp: Float_field_def)
qed

lemma order_load_date:
  assumes "load False (OrderSchema V False) body = []"
  shows "\<exists>s. subscript body ''date'' = Inr (JStr s) \<and> date_ok V s"
proof -
  from assms obtain kvs where b: "body = JObj kvs"
    and f: "\<forall>(k, f)\<in>set (OrderSchema V False). deserialize False f (map_of kvs k) = None"
    unfolding load_Nil_iff by blast
  from f have "deserialize False (True, Date_field V) (map_of kvs ''date'') = None"
    by (simp add: OrderSchema_def)
  then show ?thesis using b by (auto simp: deserialize_required Date_field_None)
qed

lemma item_load_numbers:
  assumes "load False (ItemSchema V False) body = []"
  shows "\<exists>w l. subscript body ''width'' = Inr w \<and> float_ok V w
             \<and> subscript body ''length'' = Inr l \<and> float_ok V l"
proof -
  from assms obtain kvs where b: "body = JObj kvs"
    and f: "\<forall>(k, f)\<in>set (ItemSchema V False). deserialize False f (map_of kvs k) = None"
    unfolding load_Nil_iff by blast
  from f have "deserialize False (True, Float_field V) (map_of kvs ''width'') = None"
    and "deserialize False (True, Float_field V) (map_of kvs ''length'') = None"
    by (simp_all add: ItemSchema_def)
  then show ?thesis using b
    by (auto simp: deserialize_required Float_field_def split: if_splits)
qed

lemma order_body_with_state_loads:
  "date_ok V s \<Longrightarrow> v \<noteq> JNull \<Longrightarrow>
     load False (OrderSchema V False) (JObj [(''date'', JStr s), (''state'', v)]) = []"
  by (cases v) (simp_all add: load_dict_def OrderSchema_def deserialize_def Inferred_def)

lemma create_customer_reports:
  assumes "(k, f) \<in> set (CustomerSchema V)"
    and "deserialize False f (map_of kvs k) = Some p"
  shows "\<exists>es. (k, p) \<in> set es \<and> create_customer V d (JObj kvs) = (d, Inl (BadRequest (Messages es)))"
proof -
  from load_dict_reports[OF assms] have m: "(k, p) \<in> set (load False (CustomerSchema V) (JObj kvs))"
    by simp
  then show ?thesis
    by (cases "load False (CustomerSchema V) (JObj kvs)") (auto simp: create_customer_def)
qed

lemma customer_field_rejected:
  assumes "(k, f) \<in> set (CustomerSchema V)"
    and "deserialize False f (map_of kvs k) = Some p"
  shows "\<exists>e es. create_customer V d (JObj kvs) = (d, Inl (BadRequest (Messages (e # es))))"
proof -
  from create_customer_reports[OF assms, of d] obtain es where
    "(k, p) \<in> set es" "create_customer V d (JObj kvs) = (d, Inl (BadRequest (Messages es)))"
    by blast
  then show ?thesis by (cases es) auto
qed


section \<open>Queries and row updates\<close>

lemma find_update_first:
  "(\<And>x. P x \<Longrightarrow> P (f x)) \<Longrightarrow> find P (update_first P f xs) = map_option f (find P xs)"
  by (induction xs) auto

lemma order_row_set_state:
  "order_row (d\<lparr>orders := update_first (\<lambda>o1. o_id o1 = n) (\<lambda>o1. o1\<lparr>o_state := s\<rparr>) (orders d)\<rparr>) n
     = map_option (\<lambda>o1. o1\<lparr>o_state := s\<rparr>) (order_row d n)"
  by (simp add: order_row_def find_update_first)

lemma order_row_o_id: "order_row d n = Some ord \<Longrightarrow> o_id ord = n"
  by (auto simp: order_row_def find_Some_iff)


lemma order_row_None_iff: "order_row d n = None \<longleftrightarrow> n \<notin> o_id ` set (orders d)"
  unfolding order_row_def find_None_iff by auto

lemma customer_row_None_iff: "customer_row d n = None \<longleftrightarrow> n \<notin> c_id ` set (customers d)"
  unfolding customer_row_def find_None_iff by auto

lemma order_by_id_Some:
  "order_by_id E d i = Inr (Some ord) \<longleftrightarrow> key_of E i = Key (o_id ord) \<and> order_row d (o_id ord) = Some ord"
  by (auto simp: order_by_id_def split: key.splits dest: order_row_o_id)


lemma order_by_id_None:
  "order_by_id E d i = Inr None \<longleftrightarrow>
     key_of E i = Unmatched \<or> (\<exists>n. key_of E i = Key n \<and> n \<notin> o_id ` set (orders d))"
  by (auto simp: order_by_id_def order_row_None_iff split: key.splits)

lemma customer_by_id_None:
  "customer_by_id E d i = Inr None \<longleftrightarrow>
     key_of E i = Unmatched \<or> (\<exists>n. key_of E i = Key n \<and> n \<notin> c_id ` set (customers d))"
  by (auto simp: customer_by_id_def customer_row_None_iff split: key.splits)

lemma order_by_id_Inl: "order_by_id E d i = Inl x \<longleftrightarrow> key_of E i = Refused \<and> x = DataError"
  by (auto simp: order_by_id_def split: key.splits)

lemma customer_by_id_Inl: "customer_by_id E d i = Inl x \<longleftrightarrow> key_of E i = Refused \<and> x = DataError"
  by (auto simp: customer_by_id_def split: key.splits)

lemma order_by_id_set_state:
  assumes "order_by_id E d i = Inr (Some ord)"
  shows "order_by_id E
           (d\<lparr>orders := update_first (\<lambda>o1. o_id o1 = o_id ord) (\<lambda>o1. o1\<lparr>o_state := s\<rparr>) (orders d)\<rparr>) i
         = Inr (Some (ord\<lparr>o_state := s\<rparr>))"
  using assms unfolding order_by_id_Some
  by (simp add: order_by_id_def order_row_set_state)



lemma items_of_mset:
  "mset (items_of E d ord) = mset (filter (\<lambda>it. i_order_id it = o_id ord) (items d))"
  by (simp add: items_of_def)

lemma items_of_set:
  "it \<in> set (items_of E d ord) \<Longrightarrow> i_order_id it = o_id ord"
  by (simp add: items_of_def)

section \<open>The scenario, evaluated\<close>

lemma scenario_keys:
  "key_of scenario_engine ''1'' = Key 1"
  "key_of scenario_engine ''7'' = Key 7"
  "key_of scenario_engine ''abc'' = Refused"
  by (simp_all add: scenario_engine_def digit_def)

lemma scenario_columns:
  "datetime_column scenario_engine (JStr ''2024-01-10'') = Some (JStr ''2024-01-10 00:00:00'')"
  "datetime_column scenario_engine (JStr ''2024-1-5'') = Some (JStr ''2024-01-05 00:00:00'')"
  "float_column scenario_engine (JNum x) = Some (JNum x)"
  "float_column scenario_engine (JStr s) = None"
  "integer_column scenario_engine (JNum 7) = Some 7"
  by (simp_all add: scenario_engine_def)

lemma db_customer_lookup: "customer_by_id scenario_engine db_customer ''1'' = Inr (Some ana)"
  by (simp add: customer_by_id_def scenario_keys customer_row_def db_customer_def ana_def)

lemma db_order_lookup: "order_by_id scenario_engine db_order ''1'' = Inr (Some order1)"
  by (simp add: order_by_id_def scenario_keys order_row_def db_order_def order1_def)

lemma db_item_lookup: "order_by_id scenario_engine db_item ''1'' = Inr (Some order1)"
  by (simp add: order_by_id_def scenario_keys order_row_def db_item_def order1_def)

lemma db_approved_lookup:
  "order_by_id scenario_engine db_approved ''1'' = Inr (Some (order1\<lparr>o_state := ''Aprobada''\<rparr>))"
  by (simp add: order_by_id_def scenario_keys order_row_def db_approved_def order1_def)

lemma db_item_items: "items_of scenario_engine db_item order1 = [item1]"
  by (simp add: items_of_def db_item_def item1_def order1_def)

lemma item_body_loads:
  "load False (ItemSchema scenario_formats False) (JObj [(''width'', JNum 2), (''length'', JNum 3)]) = []"
  by (simp add: load_dict_def ItemSchema_def deserialize_def Inferred_def Float_field_def scenario_formats_def)

lemma scenario_serve: "serve scenario_engine scenario_formats init_db scenario = db_approved"
  by code_simp

lemma scenario_count:
  "count_served (item_created scenario_engine scenario_formats 1) scenario_engine scenario_formats
     init_db scenario = 1"
  by code_simp

section \<open>The order's state transition\<close>

text \<open>
  Claim C2. The specification's states "Requested", "Approved" and "Rejected" are the
  strings \<^verbatim>\<open>"Solicitada"\<close>, \<^verbatim>\<open>"Aprobada"\<close> and \<^verbatim>\<open>"Anulada"\<close> of the code, and its
  InvalidParameterError is the 400 response with the text \<^verbatim>\<open>param error\<close>.
  For an order that exists (the query for the route's \<^verbatim>\<open>id\<close> returns it),
  \<^verbatim>\<open>PUT /order/i/1\<close> is answered 200 and leaves the order with state
  \<^verbatim>\<open>"Aprobada"\<close>, \<^verbatim>\<open>PUT /order/i/0\<close> is answered 200 and leaves it with state
  \<^verbatim>\<open>"Anulada"\<close>, and every other token is answered with \<^verbatim>\<open>param error\<close> and
  leaves the whole store, and so the order's state, as it was.
\<close>

theorem update_order_decision:
  assumes "order_by_id E d i = Inr (Some ord)"
  shows "\<not> isl (snd (update_order E V d i ''1''))
       \<and> order_by_id E (fst (update_order E V d i ''1'')) i = Inr (Some (ord\<lparr>o_state := ''Aprobada''\<rparr>))
       \<and> \<not> isl (snd (update_order E V d i ''0''))
       \<and> order_by_id E (fst (update_order E V d i ''0'')) i = Inr (Some (ord\<lparr>o_state := ''Anulada''\<rparr>))
       \<and> (sw \<noteq> ''1'' \<and> sw \<noteq> ''0'' \<longrightarrow>
           update_order E V d i sw = (d, Inl (BadRequest (Text ''param error''))))"
  using assms order_by_id_set_state[OF assms] by (simp add: update_order_def Let_def)

theorem update_order_decision_witness:
  "order_by_id scenario_engine db_order ''1'' = Inr (Some order1)
   \<and> \<not> isl (snd (update_order scenario_engine scenario_formats db_order ''1'' ''1''))
   \<and> order_by_id scenario_engine (fst (update_order scenario_engine scenario_formats db_order ''1'' ''1'')) ''1''
       = Inr (Some (order1\<lparr>o_state := ''Aprobada''\<rparr>))
   \<and> \<not> isl (snd (update_order scenario_engine scenario_formats db_order ''1'' ''0''))
   \<and> order_by_id scenario_engine (fst (update_order scenario_engine scenario_formats db_order ''1'' ''0'')) ''1''
       = Inr (Some (order1\<lparr>o_state := ''Anulada''\<rparr>))
   \<and> update_order scenario_engine scenario_formats db_order ''1'' ''2''
       = (db_order, Inl (BadRequest (Text ''param error'')))"
  using db_order_lookup update_order_decision[OF db_order_lookup, of scenario_formats "''2''"]
  by simp

text \<open>
  Claim C4. An order whose state is already \<^verbatim>\<open>"Aprobada"\<close> or \<^verbatim>\<open>"Anulada"\<close> is
  transitioned again: \<^verbatim>\<open>update_order\<close> reads no state before it assigns, so both
  tokens are answered 200 and the state is overwritten with the new value.
\<close>

theorem update_order_terminal_overwrites:
  assumes "order_by_id E d i = Inr (Some ord)"
    and "o_state ord = ''Aprobada'' \<or> o_state ord = ''Anulada''"
  shows "\<not> isl (snd (update_order E V d i ''1''))
       \<and> order_by_id E (fst (update_order E V d i ''1'')) i = Inr (Some (ord\<lparr>o_state := ''Aprobada''\<rparr>))
       \<and> \<not> isl (snd (update_order E V d i ''0''))
       \<and> order_by_id E (fst (update_order E V d i ''0'')) i = Inr (Some (ord\<lparr>o_state := ''Anulada''\<rparr>))"
  using assms(1) order_by_id_set_state[OF assms(1)] by (simp add: update_order_def Let_def)

theorem update_order_terminal_overwrites_witness:
  "order_by_id scenario_engine db_approved ''1'' = Inr (Some (order1\<lparr>o_state := ''Aprobada''\<rparr>))
   \<and> (o_state (order1\<lparr>o_state := ''Aprobada''\<rparr>) = ''Aprobada''
      \<or> o_state (order1\<lparr>o_state := ''Aprobada''\<rparr>) = ''Anulada'')
   \<and> \<not> isl (snd (update_order scenario_engine scenario_formats db_approved ''1'' ''1''))
   \<and> order_by_id scenario_engine (fst (update_order scenario_engine scenario_formats db_approved ''1'' ''1'')) ''1''
       = Inr (Some (order1\<lparr>o_state := ''Aprobada''\<rparr>))
   \<and> \<not> isl (snd (update_order scenario_engine scenario_formats db_approved ''1'' ''0''))
   \<and> order_by_id scenario_engine (fst (update_order scenario_engine scenario_formats db_approved ''1'' ''0'')) ''1''
       = Inr (Some (order1\<lparr>o_state := ''Anulada''\<rparr>))"
proof -
  have h2: "o_state (order1\<lparr>o_state := ''Aprobada''\<rparr>) = ''Aprobada''
      \<or> o_state (order1\<lparr>o_state := ''Aprobada''\<rparr>) = ''Anulada''"
    by simp
  show ?thesis
    using db_approved_lookup h2
      update_order_terminal_overwrites[OF db_approved_lookup h2, of scenario_formats]
    by simp
qed

section \<open>Updating a customer that does not exist\<close>

text \<open>
  Claim C7, as the code has it. The specification's NotFoundError is here the 400
  response with the text \<^verbatim>\<open>user not found\<close>. The route's \<^verbatim>\<open>id\<close> is any text.
  When the store compares it and no persisted customer has it (the text can equal no
  key, or it reads as a number that is the key of no customer),
  \<^verbatim>\<open>PUT /customers/i\<close> is answered so whatever the body is. When the store
  refuses to compare the text, its error leaves the view function uncaught. In both
  cases the store that is left (customers, orders, items and counters) is the store
  that was given.
\<close>

theorem update_customer_not_found:
  "(key_of E i = Unmatched \<or> (\<exists>n. key_of E i = Key n \<and> n \<notin> c_id ` set (customers d)) \<longrightarrow>
      update_customer E V d i body = (d, Inl (BadRequest (Text ''user not found''))))
   \<and> (key_of E i = Refused \<longrightarrow> update_customer E V d i body = (d, Inl (Uncaught DataError)))"
proof (intro conjI impI)
  assume "key_of E i = Unmatched \<or> (\<exists>n. key_of E i = Key n \<and> n \<notin> c_id ` set (customers d))"
  then have "customer_by_id E d i = Inr None" by (simp add: customer_by_id_None)
  then show "update_customer E V d i body = (d, Inl (BadRequest (Text ''user not found'')))"
    by (simp add: update_customer_def)
next
  assume "key_of E i = Refused"
  then have "customer_by_id E d i = Inl DataError" by (simp add: customer_by_id_Inl)
  then show "update_customer E V d i body = (d, Inl (Uncaught DataError))"
    by (simp add: update_customer_def)
qed

theorem update_customer_not_found_witness:
  "key_of scenario_engine ''7'' = Key 7 \<and> 7 \<notin> c_id ` set (customers db_item)
   \<and> update_customer scenario_engine scenario_formats db_item ''7'' (JObj [(''name'', JStr ''Ana Maria'')])
       = (db_item, Inl (BadRequest (Text ''user not found'')))
   \<and> key_of scenario_engine ''2147483648'' = Refused
   \<and> update_customer scenario_engine scenario_formats db_item ''2147483648''
         (JObj [(''name'', JStr ''Ana Maria'')])
       = (db_item, Inl (Uncaught DataError))"
proof -
  have h: "7 \<notin> c_id ` set (customers db_item)"
    by (simp add: db_item_def ana_def)
  have k: "key_of scenario_engine ''2147483648'' = Refused"
    by (simp add: scenario_engine_def)
  from update_customer_not_found[of scenario_engine "''7''" db_item scenario_formats] h scenario_keys(2)
  have a: "update_customer scenario_engine scenario_formats db_item ''7'' (JObj [(''name'', JStr ''Ana Maria'')])
       = (db_item, Inl (BadRequest (Text ''user not found'')))"
    by blast
  from update_customer_not_found[of scenario_engine "''2147483648''" db_item scenario_formats] k
  have b: "update_customer scenario_engine scenario_formats db_item ''2147483648''
         (JObj [(''name'', JStr ''Ana Maria'')])
       = (db_item, Inl (Uncaught DataError))"
    by blast
  show ?thesis by (intro conjI scenario_keys(2) h a k b)
qed

text \<open>
  No customer has the identifier \<^verbatim>\<open>abc\<close>, and on an engine that refuses to compare
  it with an integer the answer is not \<^verbatim>\<open>user not found\<close>.
\<close>

theorem update_customer_refused_id_counterexample:
  "map c_id (customers db_item) = [1]
   \<and> key_of scenario_engine ''abc'' = Refused
   \<and> update_customer scenario_engine scenario_formats db_item ''abc'' (JObj [(''name'', JStr ''Ana Maria'')])
       = (db_item, Inl (Uncaught DataError))"
  by (simp add: db_item_def ana_def scenario_keys update_customer_def customer_by_id_def)

section \<open>Creating an order\<close>

text \<open>
  Claim C1, as the code has it. The specification's state "Requested" is the string
  \<^verbatim>\<open>"Solicitada"\<close>. For a customer that exists and a body that
  \<^verbatim>\<open>order_schema.load\<close> accepts, the body has a date, and \<^verbatim>\<open>POST /order/i\<close>
  depends on what the store's \<^verbatim>\<open>DateTime\<close> column makes of its raw text. When the
  column takes it, the request is answered 200 and appends one order for that
  customer, with the datetime that the column stored and with state
  \<^verbatim>\<open>"Solicitada"\<close>: the state is a literal of the view function, and a
  \<^verbatim>\<open>state\<close> key of the body is never read. When the column refuses it, the
  error leaves the view function uncaught and nothing is persisted.
\<close>

theorem create_order_state_forced:
  assumes "customer_by_id E d i = Inr (Some c)"
    and "load False (OrderSchema V False) body = []"
  shows "\<exists>date. subscript body ''date'' = Inr date
           \<and> (case datetime_column E date of
                 None \<Rightarrow> create_order E V d i body = (d, Inl (Uncaught DataError))
               | Some stored \<Rightarrow>
                   \<not> isl (snd (create_order E V d i body))
                   \<and> fst (create_order E V d i body) =
                       d\<lparr>orders := orders d @
                            [\<lparr>o_id = next_order d, o_customer_id = c_id c, o_date = stored,
                              o_state = ''Solicitada''\<rparr>],
                          next_order := Suc (next_order d)\<rparr>)"
proof -
  from order_load_date[OF assms(2)] obtain s where "subscript body ''date'' = Inr (JStr s)"
    by blast
  then show ?thesis using assms
    by (simp add: create_order_def Let_def split: option.splits)
qed

text \<open>The body of the witness supplies the state \<^verbatim>\<open>"Aprobada"\<close>.\<close>

theorem create_order_state_forced_witness:
  "customer_by_id scenario_engine db_customer ''1'' = Inr (Some ana)
   \<and> load False (OrderSchema scenario_formats False)
        (JObj [(''date'', JStr ''2024-01-10''), (''state'', JStr ''Aprobada'')]) = []
   \<and> datetime_column scenario_engine (JStr ''2024-01-10'') = Some (JStr ''2024-01-10 00:00:00'')
   \<and> \<not> isl (snd (create_order scenario_engine scenario_formats db_customer ''1''
                  (JObj [(''date'', JStr ''2024-01-10''), (''state'', JStr ''Aprobada'')])))
   \<and> fst (create_order scenario_engine scenario_formats db_customer ''1''
                  (JObj [(''date'', JStr ''2024-01-10''), (''state'', JStr ''Aprobada'')])) =
            db_customer\<lparr>orders := orders db_customer @
                    [\<lparr>o_id = next_order db_customer, o_customer_id = c_id ana,
                      o_date = JStr ''2024-01-10 00:00:00'', o_state = ''Solicitada''\<rparr>],
                  next_order := Suc (next_order db_customer)\<rparr>"
proof -
  have h2: "load False (OrderSchema scenario_formats False)
        (JObj [(''date'', JStr ''2024-01-10''), (''state'', JStr ''Aprobada'')]) = []"
    by (rule order_body_with_state_loads) (simp_all add: scenario_formats_def)
  have h3: "datetime_column scenario_engine (JStr ''2024-01-10'') = Some (JStr ''2024-01-10 00:00:00'')"
    by (rule scenario_columns)
  from create_order_state_forced[OF db_customer_lookup h2] h3
  have "\<not> isl (snd (create_order scenario_engine scenario_formats db_customer ''1''
                  (JObj [(''date'', JStr ''2024-01-10''), (''state'', JStr ''Aprobada'')])))
   \<and> fst (create_order scenario_engine scenario_formats db_customer ''1''
                  (JObj [(''date'', JStr ''2024-01-10''), (''state'', JStr ''Aprobada'')])) =
            db_customer\<lparr>orders := orders db_customer @
                    [\<lparr>o_id = next_order db_customer, o_customer_id = c_id ana,
                      o_date = JStr ''2024-01-10 00:00:00'', o_state = ''Solicitada''\<rparr>],
                  next_order := Suc (next_order db_customer)\<rparr>"
    by simp
  with db_customer_lookup h2 h3 show ?thesis by simp
qed

text \<open>
  A valid date alone does not make the body acceptable: the load is of the whole
  body, and \<^verbatim>\<open>OrderSchema\<close> nests \<^verbatim>\<open>CustomerSchema\<close> under \<^verbatim>\<open>customer\<close>
  (line 83), four of whose fields are required. Nothing is persisted.
\<close>

theorem create_order_nested_customer_counterexample:
  "customer_by_id scenario_engine db_customer ''1'' = Inr (Some ana)
   \<and> subscript (JObj [(''date'', JStr ''2024-01-10''), (''customer'', JObj [])]) ''date''
        = Inr (JStr ''2024-01-10'')
   \<and> date_ok scenario_formats ''2024-01-10''
   \<and> create_order scenario_engine scenario_formats db_customer ''1''
        (JObj [(''date'', JStr ''2024-01-10''), (''customer'', JObj [])])
      = (db_customer,
         Inl (BadRequest (Messages
           [(''customer'', Within [(''name'', Missing_required), (''phone'', Missing_required),
                                  (''address'', Missing_required),
                                  (''nationality'', Missing_required)])])))"
  by (simp add: db_customer_lookup scenario_formats_def create_order_def
      load_dict_def OrderSchema_def CustomerSchema_def deserialize_def Inferred_def Nested_field_def)

text \<open>
  The store's part: a date that \<^verbatim>\<open>strptime\<close> reads and the column stores in
  another form, and an engine whose \<^verbatim>\<open>DateTime\<close> column takes no text at all.
\<close>

lemma create_order_converted_date_example:
  "fst (create_order scenario_engine scenario_formats db_customer ''1'' (JObj [(''date'', JStr ''2024-1-5'')]))
     = db_customer\<lparr>orders := [\<lparr>o_id = 1, o_customer_id = 1, o_date = JStr ''2024-01-05 00:00:00'',
                                o_state = ''Solicitada''\<rparr>],
                   next_order := 2\<rparr>"
  by code_simp

lemma create_order_refused_date_example:
  "create_order (scenario_engine\<lparr>datetime_column := \<lambda>v. None\<rparr>) scenario_formats db_customer ''1''
     (JObj [(''date'', JStr ''2024-01-10'')])
   = (db_customer, Inl (Uncaught DataError))"
  by code_simp

section \<open>Adding an item\<close>

text \<open>
  Claim C3, as the code has it. The specification's InvalidStateError is the 400
  response with the text
  \<^verbatim>\<open>order probably approved or rejected, you cannot add items\<close>. For an order that
  exists and a body that \<^verbatim>\<open>item_schema.load\<close> accepts, the body has a width and a
  length, and \<^verbatim>\<open>POST /item/i\<close> is answered 200 if and only if the order's state is
  \<^verbatim>\<open>"Solicitada"\<close> and the store's \<^verbatim>\<open>Float\<close> columns take both raw values. For
  any other state the answer is that text and the store is unchanged. For the state
  \<^verbatim>\<open>"Solicitada"\<close>, one item with the stored width and length is appended for the
  order when the columns take the values, and otherwise the store's error leaves
  the view function uncaught and nothing is persisted.
\<close>

theorem create_item_gated_by_state:
  assumes "order_by_id E d i = Inr (Some ord)"
    and "load False (ItemSchema V False) body = []"
  shows "\<exists>width len. subscript body ''width'' = Inr width \<and> subscript body ''length'' = Inr len
       \<and> (\<not> isl (snd (create_item E V d i body)) \<longleftrightarrow>
            o_state ord = ''Solicitada'' \<and> float_column E width \<noteq> None \<and> float_column E len \<noteq> None)
       \<and> (o_state ord \<noteq> ''Solicitada'' \<longrightarrow>
            create_item E V d i body =
              (d, Inl (BadRequest (Text ''order probably approved or rejected, you cannot add items''))))
       \<and> (o_state ord = ''Solicitada'' \<longrightarrow>
            (case (float_column E width, float_column E len) of
               (Some w, Some l) \<Rightarrow>
                 fst (create_item E V d i body) =
                   d\<lparr>items := items d @
                        [\<lparr>i_id = next_item d, i_order_id = o_id ord, i_width = w, i_length = l\<rparr>],
                      next_item := Suc (next_item d)\<rparr>
             | _ \<Rightarrow> create_item E V d i body = (d, Inl (Uncaught DataError))))"
proof -
  from item_load_numbers[OF assms(2)] obtain w l where
    "subscript body ''width'' = Inr w" "subscript body ''length'' = Inr l"
    by blast
  then show ?thesis using assms
    by (simp add: create_item_def Let_def split: option.splits)
qed

theorem create_item_gated_by_state_witness:
  "order_by_id scenario_engine db_order ''1'' = Inr (Some order1)
   \<and> load False (ItemSchema scenario_formats False) (JObj [(''width'', JNum 2), (''length'', JNum 3)]) = []
   \<and> o_state order1 = ''Solicitada''
   \<and> \<not> isl (snd (create_item scenario_engine scenario_formats db_order ''1''
                   (JObj [(''width'', JNum 2), (''length'', JNum 3)])))
   \<and> fst (create_item scenario_engine scenario_formats db_order ''1''
                   (JObj [(''width'', JNum 2), (''length'', JNum 3)])) = db_item
   \<and> order_by_id scenario_engine db_approved ''1'' = Inr (Some (order1\<lparr>o_state := ''Aprobada''\<rparr>))
   \<and> create_item scenario_engine scenario_formats db_approved ''1''
        (JObj [(''width'', JNum 2), (''length'', JNum 3)])
       = (db_approved, Inl (BadRequest (Text ''order probably approved or rejected, you cannot add items'')))"
proof -
  let ?b = "JObj [(''width'', JNum 2), (''length'', JNum 3)]"
  have s1: "o_state order1 = ''Solicitada''" by (simp add: order1_def)
  have f: "float_column scenario_engine (JNum 2) = Some (JNum 2)"
      "float_column scenario_engine (JNum 3) = Some (JNum 3)"
    by (rule scenario_columns)+
  from create_item_gated_by_state[OF db_order_lookup item_body_loads] s1 f
  have a: "\<not> isl (snd (create_item scenario_engine scenario_formats db_order ''1'' ?b))"
    and b: "fst (create_item scenario_engine scenario_formats db_order ''1'' ?b) =
       db_order\<lparr>items := items db_order @
                        [\<lparr>i_id = next_item db_order, i_order_id = o_id order1, i_width = JNum 2,
                          i_length = JNum 3\<rparr>],
                      next_item := Suc (next_item db_order)\<rparr>"
    by simp_all
  have b': "db_order\<lparr>items := items db_order @
                        [\<lparr>i_id = next_item db_order, i_order_id = o_id order1, i_width = JNum 2,
                          i_length = JNum 3\<rparr>],
                      next_item := Suc (next_item db_order)\<rparr> = db_item"
    by (simp add: db_order_def db_item_def item1_def order1_def)
  from create_item_gated_by_state[OF db_approved_lookup item_body_loads]
  have c: "create_item scenario_engine scenario_formats db_approved ''1'' ?b
       = (db_approved, Inl (BadRequest (Text ''order probably approved or rejected, you cannot add items'')))"
    by simp
  show ?thesis using db_order_lookup item_body_loads s1 a b b' db_approved_lookup c by simp
qed

text \<open>
  Valid numbers for \<^verbatim>\<open>width\<close> and \<^verbatim>\<open>length\<close> do not make the body acceptable:
  \<^verbatim>\<open>ItemSchema\<close> nests \<^verbatim>\<open>OrderSchema\<close> under \<^verbatim>\<open>order\<close>, whose \<^verbatim>\<open>date\<close> is
  required, and validation comes before the test of the state. The order below is
  in state \<^verbatim>\<open>"Solicitada"\<close> and no item is persisted.
\<close>

theorem create_item_nested_order_counterexample:
  "order_by_id scenario_engine db_order ''1'' = Inr (Some order1)
   \<and> o_state order1 = ''Solicitada''
   \<and> subscript (JObj [(''width'', JNum 2), (''length'', JNum 3), (''order'', JObj [])]) ''width'' = Inr (JNum 2)
   \<and> float_ok scenario_formats (JNum 2)
   \<and> subscript (JObj [(''width'', JNum 2), (''length'', JNum 3), (''order'', JObj [])]) ''length'' = Inr (JNum 3)
   \<and> float_ok scenario_formats (JNum 3)
   \<and> create_item scenario_engine scenario_formats db_order ''1''
        (JObj [(''width'', JNum 2), (''length'', JNum 3), (''order'', JObj [])])
      = (db_order, Inl (BadRequest (Messages [(''order'', Within [(''date'', Missing_required)])])))"
  by (simp add: db_order_lookup order1_def scenario_formats_def create_item_def
      load_dict_def ItemSchema_def OrderSchema_def deserialize_def Inferred_def Float_field_def
      Nested_field_def)

text \<open>
  The store's part: \<^verbatim>\<open>fields.Float\<close> accepts the text \<^verbatim>\<open>1_000\<close>, which a float
  column that reads no such text refuses.
\<close>

lemma create_item_refused_number_example:
  "float_ok scenario_formats (JStr ''1_000'')
   \<and> create_item scenario_engine scenario_formats db_order ''1''
        (JObj [(''width'', JStr ''1_000''), (''length'', JNum 3)])
      = (db_order, Inl (Uncaught DataError))"
  by code_simp

section \<open>Registering a customer\<close>

text \<open>
  Claim C5, as the code has it. The specification's ConflictError is the 400 response
  with the text \<^verbatim>\<open>user with this email already exists\<close> or \<^verbatim>\<open>user with this
  phone already exists\<close>. For a body that \<^verbatim>\<open>customer_schema.load\<close> accepts and that
  has an \<^verbatim>\<open>email\<close> key: when a persisted customer has that email the answer is the
  first text, otherwise when a persisted customer has that phone it is the second,
  and in both cases the store is unchanged.
\<close>

theorem create_customer_conflict:
  assumes "load False (CustomerSchema V) body = []"
    and "subscript body ''email'' = Inr email"
    and "subscript body ''phone'' = Inr phone"
    and "(\<exists>c\<in>set (customers d). c_email c = email) \<or> (\<exists>c\<in>set (customers d). c_phone c = phone)"
  shows "create_customer V d body =
           (d, Inl (BadRequest (Text
              (if \<exists>c\<in>set (customers d). c_email c = email
               then ''user with this email already exists''
               else ''user with this phone already exists''))))"
  using assms by (auto simp: create_customer_def list_ex_iff)

theorem create_customer_conflict_witness:
  "load False (CustomerSchema scenario_formats)
      (JObj [(''name'', JStr ''Ana Lopez''), (''email'', JStr ''ana@x.com''),
             (''phone'', JStr ''5559876543''), (''address'', JStr ''High St''),
             (''nationality'', JStr ''CO'')]) = []
   \<and> (\<exists>c\<in>set (customers db_customer). c_email c = JStr ''ana@x.com'')
   \<and> create_customer scenario_formats db_customer
        (JObj [(''name'', JStr ''Ana Lopez''), (''email'', JStr ''ana@x.com''),
               (''phone'', JStr ''5559876543''), (''address'', JStr ''High St''),
               (''nationality'', JStr ''CO'')])
      = (db_customer, Inl (BadRequest (Text ''user with this email already exists'')))"
proof -
  let ?b = "JObj [(''name'', JStr ''Ana Lopez''), (''email'', JStr ''ana@x.com''),
               (''phone'', JStr ''5559876543''), (''address'', JStr ''High St''),
               (''nationality'', JStr ''CO'')]"
  have h1: "load False (CustomerSchema scenario_formats) ?b = []"
    by (simp add: load_dict_def CustomerSchema_def deserialize_def Inferred_def scenario_formats_def)
  have h2: "subscript ?b ''email'' = Inr (JStr ''ana@x.com'')" by simp
  have h3: "subscript ?b ''phone'' = Inr (JStr ''5559876543'')" by simp
  have e: "\<exists>c\<in>set (customers db_customer). c_email c = JStr ''ana@x.com''"
    by (simp add: db_customer_def ana_def)
  then have h4: "(\<exists>c\<in>set (customers db_customer). c_email c = JStr ''ana@x.com'')
      \<or> (\<exists>c\<in>set (customers db_customer). c_phone c = JStr ''5559876543'')" by blast
  show ?thesis using h1 e create_customer_conflict[OF h1 h2 h3 h4] by simp
qed

text \<open>
  The uniqueness tests come after validation: a body that repeats a persisted email
  and has a name of two characters is answered with the validation messages.
\<close>

theorem create_customer_conflict_counterexample:
  "(\<exists>c\<in>set (customers db_customer). c_email c = JStr ''ana@x.com'')
   \<and> subscript (JObj [(''name'', JStr ''Al''), (''email'', JStr ''ana@x.com''),
               (''phone'', JStr ''5559876543''), (''address'', JStr ''High St''),
               (''nationality'', JStr ''CO'')]) ''email'' = Inr (JStr ''ana@x.com'')
   \<and> create_customer scenario_formats db_customer
        (JObj [(''name'', JStr ''Al''), (''email'', JStr ''ana@x.com''),
               (''phone'', JStr ''5559876543''), (''address'', JStr ''High St''),
               (''nationality'', JStr ''CO'')])
      = (db_customer, Inl (BadRequest (Messages [(''name'', Too_short 3)])))"
  by (simp add: db_customer_def ana_def create_customer_def
      load_dict_def CustomerSchema_def deserialize_def Inferred_def scenario_formats_def)

text \<open>
  Claim C6 at the input where the code departs from it: a body with every field but
  \<^verbatim>\<open>email\<close>. \<^verbatim>\<open>email = fields.Email()\<close> (line 71) is the one field declared
  without \<^verbatim>\<open>required=True\<close>, so the load raises nothing, and
  \<^verbatim>\<open>request.json['email']\<close> (line 121) raises \<^verbatim>\<open>KeyError\<close>, which nothing
  catches: no validation error is answered. Nothing is persisted.
\<close>

theorem create_customer_missing_email:
  "create_customer V d
     (JObj [(''name'', JStr ''Ana Cruz''), (''phone'', JStr ''5551234567''),
            (''address'', JStr ''Main St''), (''nationality'', JStr ''MX'')])
   = (d, Inl (Uncaught (KeyError ''email'')))"
  by (simp add: create_customer_def load_dict_def CustomerSchema_def deserialize_def Inferred_def)

text \<open>
  The other cases of C6 hold: a missing or short \<^verbatim>\<open>name\<close> or \<^verbatim>\<open>phone\<close>, an
  \<^verbatim>\<open>email\<close> that is no address, a missing \<^verbatim>\<open>address\<close> or \<^verbatim>\<open>nationality\<close> are
  answered with a non-empty list of messages, and the store is unchanged.
\<close>

lemma create_customer_malformed:
  assumes "map_of kvs ''name'' = None \<or> (\<exists>s. map_of kvs ''name'' = Some (JStr s) \<and> length s < 3)
         \<or> map_of kvs ''phone'' = None \<or> (\<exists>s. map_of kvs ''phone'' = Some (JStr s) \<and> length s < 10)
         \<or> (\<exists>s. map_of kvs ''email'' = Some (JStr s) \<and> \<not> email_ok V s)
         \<or> map_of kvs ''address'' = None \<or> map_of kvs ''nationality'' = None"
  shows "\<exists>e es. create_customer V d (JObj kvs) = (d, Inl (BadRequest (Messages (e # es))))"
proof -
  have name: "(''name'', (True, String_field 3)) \<in> set (CustomerSchema V)"
    and phone: "(''phone'', (True, String_field 10)) \<in> set (CustomerSchema V)"
    and email: "(''email'', (False, Email_field V)) \<in> set (CustomerSchema V)"
    and address: "(''address'', (True, String_field 0)) \<in> set (CustomerSchema V)"
    and nationality: "(''nationality'', (True, String_field 0)) \<in> set (CustomerSchema V)"
    by (simp_all add: CustomerSchema_def)
  from assms consider
      (name_missing) "map_of kvs ''name'' = None"
    | (name_short) s where "map_of kvs ''name'' = Some (JStr s)" "length s < 3"
    | (phone_missing) "map_of kvs ''phone'' = None"
    | (phone_short) s where "map_of kvs ''phone'' = Some (JStr s)" "length s < 10"
    | (email_invalid) s where "map_of kvs ''email'' = Some (JStr s)" "\<not> email_ok V s"
    | (address_missing) "map_of kvs ''address'' = None"
    | (nationality_missing) "map_of kvs ''nationality'' = None"
    by (elim disjE exE conjE) simp_all
  then show ?thesis
  proof cases
    case name_missing
    then have "deserialize False (True, String_field 3) (map_of kvs ''name'') = Some Missing_required"
      by (simp add: deserialize_def)
    from customer_field_rejected[OF name this] show ?thesis .
  next
    case name_short
    then have "deserialize False (True, String_field 3) (map_of kvs ''name'') = Some (Too_short 3)"
      by (simp add: deserialize_def)
    from customer_field_rejected[OF name this] show ?thesis .
  next
    case phone_missing
    then have "deserialize False (True, String_field 10) (map_of kvs ''phone'') = Some Missing_required"
      by (simp add: deserialize_def)
    from customer_field_rejected[OF phone this] show ?thesis .
  next
    case phone_short
    then have "deserialize False (True, String_field 10) (map_of kvs ''phone'') = Some (Too_short 10)"
      by (simp add: deserialize_def)
    from customer_field_rejected[OF phone this] show ?thesis .
  next
    case email_invalid
    then have "deserialize False (False, Email_field V) (map_of kvs ''email'') = Some Invalid_value"
      by (simp add: deserialize_def)
    from customer_field_rejected[OF email this] show ?thesis .
  next
    case address_missing
    then have "deserialize False (True, String_field 0) (map_of kvs ''address'') = Some Missing_required"
      by (simp add: deserialize_def)
    from customer_field_rejected[OF address this] show ?thesis .
  next
    case nationality_missing
    then have "deserialize False (True, String_field 0) (map_of kvs ''nationality'') = Some Missing_required"
      by (simp add: deserialize_def)
    from customer_field_rejected[OF nationality this] show ?thesis .
  qed
qed

section \<open>Reading an order back\<close>

text \<open>
  Claim C9, as the code has it. The specification's NotFoundError is here the 400
  response with the text \<^verbatim>\<open>Order not found\<close>, which \<^verbatim>\<open>GET /order/i\<close> answers
  when the store compares the route's \<^verbatim>\<open>id\<close> and no order has it; when the store
  refuses to compare it, its error leaves the view function uncaught. Otherwise
  the answer is the object with exactly the keys \<^verbatim>\<open>id\<close>, \<^verbatim>\<open>customer_id\<close>,
  \<^verbatim>\<open>date\<close>, \<^verbatim>\<open>state\<close> and \<^verbatim>\<open>items\<close>: the order's key, its foreign key, its
  datetime in ISO form, its state, and the list of all items of the order, each
  once, in the order of the store. The object has no \<^verbatim>\<open>customer\<close> key of its own.
  Each of the items is dumped by \<^verbatim>\<open>ItemSchema\<close>, whose \<^verbatim>\<open>order\<close> key holds the
  parent order as \<^verbatim>\<open>OrderSchema\<close> dumps it, and that holds the customer record
  under \<^verbatim>\<open>customer\<close>.
\<close>

theorem get_order_view:
  "(key_of E i = Refused \<longrightarrow> get_order E V d i = (d, Inl (Uncaught DataError)))
   \<and> (key_of E i = Unmatched \<or> (\<exists>n. key_of E i = Key n \<and> n \<notin> o_id ` set (orders d)) \<longrightarrow>
        get_order E V d i = (d, Inl (BadRequest (Text ''Order not found''))))
   \<and> (\<forall>ord. order_by_id E d i = Inr (Some ord) \<longrightarrow>
        get_order E V d i =
          (d, Inr (JObj [(''id'', JNum (of_nat (o_id ord))),
                         (''customer_id'', JNum (of_nat (o_customer_id ord))),
                         (''date'', render_iso V (o_date ord)),
                         (''state'', JStr (o_state ord)),
                         (''items'', JArr (map (dump_item V d) (items_of E d ord)))]))
        \<and> mset (items_of E d ord) = mset (filter (\<lambda>it. i_order_id it = o_id ord) (items d))
        \<and> (\<forall>it\<in>set (items_of E d ord).
              subscript (dump_item V d it) ''order'' = Inr (dump_order V d ord))
        \<and> subscript (dump_order V d ord) ''customer'' =
            Inr (case customer_row d (o_customer_id ord) of
                   None \<Rightarrow> JNull | Some c \<Rightarrow> dump_customer c))"
proof (intro conjI impI allI ballI)
  assume "key_of E i = Refused"
  then have "order_by_id E d i = Inl DataError" by (simp add: order_by_id_Inl)
  then show "get_order E V d i = (d, Inl (Uncaught DataError))"
    by (simp add: get_order_def)
next
  assume "key_of E i = Unmatched \<or> (\<exists>n. key_of E i = Key n \<and> n \<notin> o_id ` set (orders d))"
  then have "order_by_id E d i = Inr None" by (simp add: order_by_id_None)
  then show "get_order E V d i = (d, Inl (BadRequest (Text ''Order not found'')))"
    by (simp add: get_order_def)
next
  fix ord assume h: "order_by_id E d i = Inr (Some ord)"
  then show "get_order E V d i =
          (d, Inr (JObj [(''id'', JNum (of_nat (o_id ord))),
                         (''customer_id'', JNum (of_nat (o_customer_id ord))),
                         (''date'', render_iso V (o_date ord)),
                         (''state'', JStr (o_state ord)),
                         (''items'', JArr (map (dump_item V d) (items_of E d ord)))]))"
    by (simp add: get_order_def dump_order_items_def)
next
  fix ord
  show "mset (items_of E d ord) = mset (filter (\<lambda>it. i_order_id it = o_id ord) (items d))"
    by (rule items_of_mset)
next
  fix ord it assume h: "order_by_id E d i = Inr (Some ord)" and "it \<in> set (items_of E d ord)"
  then have "i_order_id it = o_id ord" by (simp add: items_of_set)
  moreover from h have "order_row d (o_id ord) = Some ord" by (simp add: order_by_id_Some)
  ultimately show "subscript (dump_item V d it) ''order'' = Inr (dump_order V d ord)"
    by (simp add: dump_item_def)
next
  fix ord
  show "subscript (dump_order V d ord) ''customer'' =
            Inr (case customer_row d (o_customer_id ord) of
                   None \<Rightarrow> JNull | Some c \<Rightarrow> dump_customer c)"
    by (simp add: dump_order_def)
qed

theorem get_order_view_witness:
  "key_of scenario_engine ''abc'' = Refused
   \<and> get_order scenario_engine scenario_formats db_item ''abc'' = (db_item, Inl (Uncaught DataError))
   \<and> key_of scenario_engine ''7'' = Key 7 \<and> 7 \<notin> o_id ` set (orders db_item)
   \<and> get_order scenario_engine scenario_formats db_item ''7''
       = (db_item, Inl (BadRequest (Text ''Order not found'')))
   \<and> order_by_id scenario_engine db_item ''1'' = Inr (Some order1)
   \<and> get_order scenario_engine scenario_formats db_item ''1'' =
       (db_item, Inr (JObj [(''id'', JNum 1),
                            (''customer_id'', JNum 1),
                            (''date'', JStr ''2024-01-10T00:00:00''),
                            (''state'', JStr ''Solicitada''),
                            (''items'', JArr [dump_item scenario_formats db_item item1])]))
   \<and> subscript (dump_item scenario_formats db_item item1) ''order''
       = Inr (dump_order scenario_formats db_item order1)
   \<and> subscript (dump_order scenario_formats db_item order1) ''customer'' = Inr (dump_customer ana)"
proof -
  note v = get_order_view[of scenario_engine _ scenario_formats db_item]
  have h1: "7 \<notin> o_id ` set (orders db_item)"
    by (simp add: db_item_def order1_def)
  have h4: "customer_row db_item (o_customer_id order1) = Some ana"
    by (simp add: customer_row_def db_item_def order1_def ana_def)
  have r: "render_iso scenario_formats (o_date order1) = JStr ''2024-01-10T00:00:00''"
    by (simp add: scenario_formats_def order1_def)
  have f: "o_id order1 = 1" "o_customer_id order1 = 1" "o_state order1 = ''Solicitada''"
    by (simp_all add: order1_def)
  from v[of "''abc''", THEN conjunct1] scenario_keys(3)
  have a: "get_order scenario_engine scenario_formats db_item ''abc'' = (db_item, Inl (Uncaught DataError))"
    by simp
  from v[of "''7''", THEN conjunct2, THEN conjunct1] scenario_keys(2) h1
  have b: "get_order scenario_engine scenario_formats db_item ''7''
       = (db_item, Inl (BadRequest (Text ''Order not found'')))"
    by simp
  note c = v[of "''1''", THEN conjunct2, THEN conjunct2, rule_format, OF db_item_lookup]
  from c[THEN conjunct1]
  have c1: "get_order scenario_engine scenario_formats db_item ''1'' =
       (db_item, Inr (JObj [(''id'', JNum 1),
                            (''customer_id'', JNum 1),
                            (''date'', JStr ''2024-01-10T00:00:00''),
                            (''state'', JStr ''Solicitada''),
                            (''items'', JArr [dump_item scenario_formats db_item item1])]))"
    by (simp add: r f db_item_items)
  from c[THEN conjunct2, THEN conjunct2, THEN conjunct1]
  have c2: "subscript (dump_item scenario_formats db_item item1) ''order''
       = Inr (dump_order scenario_formats db_item order1)"
    by (simp add: db_item_items)
  from c[THEN conjunct2, THEN conjunct2, THEN conjunct2]
  have c3: "subscript (dump_order scenario_formats db_item order1) ''customer'' = Inr (dump_customer ana)"
    by (simp add: h4)
  show ?thesis
    by (intro conjI scenario_keys(3) a scenario_keys(2) h1 b db_item_lookup c1 c2 c3)
qed

text \<open>
  The answer for an order with one item: the customer record is in the view, inside
  the item's \<^verbatim>\<open>order\<close>.
\<close>

theorem get_order_nested_customer_counterexample:
  "snd (get_order scenario_engine scenario_formats db_item ''1'') =
     Inr (JObj
       [(''id'', JNum 1), (''customer_id'', JNum 1), (''date'', JStr ''2024-01-10T00:00:00''),
        (''state'', JStr ''Solicitada''),
        (''items'', JArr
           [JObj [(''id'', JNum 1), (''order_id'', JNum 1), (''width'', JNum 2), (''length'', JNum 3),
                  (''order'', JObj
                     [(''id'', JNum 1), (''customer_id'', JNum 1), (''date'', JStr ''2024-01-10''),
                      (''state'', JStr ''Solicitada''),
                      (''customer'', JObj
                         [(''id'', JNum 1), (''name'', JStr ''Ana Cruz''),
                          (''email'', JStr ''ana@x.com''), (''phone'', JStr ''5551234567''),
                          (''address'', JStr ''Main St''), (''nationality'', JStr ''MX'')])])]])])"
  by code_simp

section \<open>Items are only ever added\<close>

lemma items_create_customer: "items (fst (create_customer V d body)) = items d"
  by (simp add: create_customer_def Let_def split: list.splits sum.splits)

lemma items_update_customer: "items (fst (update_customer E V d i body)) = items d"
  by (simp add: update_customer_def Let_def split: option.splits list.splits sum.splits)

lemma items_delete_customer: "items (fst (delete_customer E d i)) = items d"
  by (simp add: delete_customer_def split: option.splits sum.splits)

lemma items_create_order: "items (fst (create_order E V d i body)) = items d"
  by (simp add: create_order_def Let_def split: option.splits list.splits sum.splits)

lemma items_update_order: "items (fst (update_order E V d i sw)) = items d"
  by (simp add: update_order_def Let_def split: option.splits sum.splits)

lemma create_item_cases:
  "(isl (snd (create_item E V d j body)) \<and> fst (create_item E V d j body) = d)
   \<or> (\<exists>ord w l. order_by_id E d j = Inr (Some ord) \<and> o_state ord = ''Solicitada''
         \<and> \<not> isl (snd (create_item E V d j body))
         \<and> items (fst (create_item E V d j body)) =
             items d @ [\<lparr>i_id = next_item d, i_order_id = o_id ord, i_width = w, i_length = l\<rparr>])"
  by (simp add: create_item_def Let_def split: option.splits list.splits sum.splits)

lemma create_item_requested:
  assumes "item_created E V n d r"
  shows "map_option o_state (order_row d n) = Some ''Solicitada''"
proof (cases r)
  case (CreateItem j body)
  with assms obtain ord where o: "order_by_id E d j = Inr (Some ord)" "o_id ord = n"
    and s: "\<not> isl (snd (create_item E V d j body))"
    by (auto split: sum.splits option.splits)
  from create_item_cases[of E V d j body] s o(1) have "o_state ord = ''Solicitada''"
    by auto
  moreover from o have "order_row d n = Some ord" by (auto simp: order_by_id_Some)
  ultimately show ?thesis by simp
qed (use assms in simp_all)

lemma handle_items:
  "length (filter (\<lambda>it. i_order_id it = n) (items (fst (handle E V d r)))) =
     length (filter (\<lambda>it. i_order_id it = n) (items d)) + (if item_created E V n d r then 1 else 0)"
proof (cases r)
  case (CreateItem j body)
  from create_item_cases[of E V d j body] show ?thesis
  proof
    assume "isl (snd (create_item E V d j body)) \<and> fst (create_item E V d j body) = d"
    then show ?thesis using CreateItem by simp
  next
    assume "\<exists>ord w l. order_by_id E d j = Inr (Some ord) \<and> o_state ord = ''Solicitada''
         \<and> \<not> isl (snd (create_item E V d j body))
         \<and> items (fst (create_item E V d j body)) =
             items d @ [\<lparr>i_id = next_item d, i_order_id = o_id ord, i_width = w, i_length = l\<rparr>]"
    then show ?thesis using CreateItem by auto
  qed
qed (simp_all add: items_create_customer items_update_customer items_delete_customer
        items_create_order items_update_order get_customers_def get_orders_def
        get_order_def split: option.splits sum.splits)

lemma serve_items:
  "length (filter (\<lambda>it. i_order_id it = n) (items (serve E V d rs))) =
     length (filter (\<lambda>it. i_order_id it = n) (items d)) + count_served (item_created E V n) E V d rs"
proof (induction rs arbitrary: d)
  case Nil
  show ?case by simp
next
  case (Cons r rs)
  show ?case by (simp add: Cons.IH handle_items del: handle.simps)
qed

lemma item_created_while_requested_eq:
  "item_created_while_requested E V n d r = item_created E V n d r"
  by (auto simp: item_created_while_requested_def dest: create_item_requested)

lemma count_served_cong:
  "(\<And>d r. P d r = Q d r) \<Longrightarrow> count_served P E V d rs = count_served Q E V d rs"
  by (induction rs arbitrary: d) simp_all

text \<open>
  Claim C8. Starting from the empty store and after any sequence of requests to the
  nine routes, on any engine, for every order that exists: the list under
  \<^verbatim>\<open>items\<close> in the answer of \<^verbatim>\<open>GET /order/i\<close> has as many elements as there were
  \<^verbatim>\<open>POST /item/j\<close> requests for that order answered 200, and each of those was
  served while the order's state was \<^verbatim>\<open>"Solicitada"\<close>. No route changes or removes
  an item.
\<close>

theorem get_order_item_count:
  assumes "order_by_id E (serve E V init_db rs) i = Inr (Some ord)"
  shows "\<exists>kvs its. snd (get_order E V (serve E V init_db rs) i) = Inr (JObj kvs)
           \<and> map_of kvs ''items'' = Some (JArr its)
           \<and> length its = count_served (item_created E V (o_id ord)) E V init_db rs
           \<and> count_served (item_created E V (o_id ord)) E V init_db rs
               = count_served (item_created_while_requested E V (o_id ord)) E V init_db rs"
proof -
  have "count_served (item_created_while_requested E V (o_id ord)) E V init_db rs
          = count_served (item_created E V (o_id ord)) E V init_db rs"
    by (rule count_served_cong) (rule item_created_while_requested_eq)
  moreover have "length (items_of E (serve E V init_db rs) ord)
                   = count_served (item_created E V (o_id ord)) E V init_db rs"
    using serve_items[of "o_id ord" E V init_db rs]
    by (simp add: items_of_def init_db_def)
  ultimately show ?thesis using assms
    by (simp add: get_order_def dump_order_items_def)
qed

theorem get_order_item_count_witness:
  "order_by_id scenario_engine (serve scenario_engine scenario_formats init_db scenario) ''1''
     = Inr (Some (order1\<lparr>o_state := ''Aprobada''\<rparr>))
   \<and> (\<exists>kvs its. snd (get_order scenario_engine scenario_formats
                        (serve scenario_engine scenario_formats init_db scenario) ''1'') = Inr (JObj kvs)
           \<and> map_of kvs ''items'' = Some (JArr its)
           \<and> length its = 1
           \<and> count_served (item_created_while_requested scenario_engine scenario_formats 1)
                scenario_engine scenario_formats init_db scenario = 1)"
proof -
  have h: "order_by_id scenario_engine (serve scenario_engine scenario_formats init_db scenario) ''1''
     = Inr (Some (order1\<lparr>o_state := ''Aprobada''\<rparr>))"
    by (simp add: scenario_serve db_approved_lookup)
  have i: "o_id (order1\<lparr>o_state := ''Aprobada''\<rparr>) = 1" by (simp add: order1_def)
  from get_order_item_count[OF h] h scenario_count show ?thesis
    unfolding i by auto
qed

section \<open>The fields that an update applies\<close>









text \<open>
  What the test \<^verbatim>\<open>if not attr == 'id'\<close> prevents: the same loop without it assigns
  the primary key, and the commit writes it.
\<close>

lemma unguarded_loop_assigns_id:
  "flush scenario_engine ana
     (fold (\<lambda>(attr, val) obj. setattr obj attr val) [(''id'', JNum 7)] (column ana))
   = Inr (ana\<lparr>c_id := 7\<rparr>)"
  by code_simp

end
